theory Spec2Isabelle
  imports Main "HOL-Library.Sublist"
begin

section \<open>Text and character classes\<close>

text \<open>
  The program is \<^verbatim>\<open>src/pangu.py\<close>, run under Python 3: a \<^verbatim>\<open>str\<close> is a sequence of
  code points, modelled as a list of natural numbers, and the \<^verbatim>\<open>u\<close> helper of the source is
  the identity.  The patterns are compiled from \<^verbatim>\<open>str\<close>, so \<^verbatim>\<open>\s\<close> and \<^verbatim>\<open>\S\<close> follow the
  Unicode white space test that \<^verbatim>\<open>str.strip\<close> uses as well.
\<close>

type_synonym ustr = "nat list"

text \<open>Python's white space test on a code point (\<^verbatim>\<open>str.isspace\<close> of one character).\<close>

definition is_space :: "nat \<Rightarrow> bool" where
  "is_space c = ((0x09 \<le> c \<and> c \<le> 0x0D) \<or> (0x1C \<le> c \<and> c \<le> 0x20) \<or> c = 0x85 \<or> c = 0xA0
     \<or> c = 0x1680 \<or> (0x2000 \<le> c \<and> c \<le> 0x200A) \<or> c = 0x2028 \<or> c = 0x2029
     \<or> c = 0x202F \<or> c = 0x205F \<or> c = 0x3000)"

text \<open>
  A character set of a pattern: a bracket expression as its list of inclusive ranges (a single
  character \<open>c\<close> is the range \<open>(c, c)\<close>), \<^verbatim>\<open>\s\<close>, \<^verbatim>\<open>\S\<close>, and the dot, which matches
  everything but the line feed.
\<close>

datatype cset = Chars "(nat \<times> nat) list" | Space | NonSpace | Dot

fun in_ranges :: "(nat \<times> nat) list \<Rightarrow> nat \<Rightarrow> bool" where
  "in_ranges [] c = False"
| "in_ranges ((lo, hi) # rs) c = ((lo \<le> c \<and> c \<le> hi) \<or> in_ranges rs c)"

fun in_class :: "cset \<Rightarrow> nat \<Rightarrow> bool" where
  "in_class (Chars rs) c = in_ranges rs c"
| "in_class Space c = is_space c"
| "in_class NonSpace c = (\<not> is_space c)"
| "in_class Dot c = (c \<noteq> 0x0A)"

text \<open>The bracket expressions of the fifteen patterns, in the order of their first use.\<close>

definition CJK :: cset where
  "CJK = Chars [(0x2E80, 0x2EFF), (0x2F00, 0x2FDF), (0x3040, 0x309F), (0x30A0, 0x30FF),
     (0x3100, 0x312F), (0x3200, 0x32FF), (0x3400, 0x4DBF), (0x4E00, 0x9FFF), (0xF900, 0xFAFF)]"

definition QUOTE :: cset where
  "QUOTE = Chars [(0x22, 0x22), (0x27, 0x27)]"

text \<open>The second set of \<^verbatim>\<open>QUOTE_CJK_RE\<close>: it starts at U+3040.\<close>

definition CJK_AFTER_QUOTE :: cset where
  "CJK_AFTER_QUOTE = Chars [(0x3040, 0x312F), (0x3200, 0x32FF), (0x3400, 0x4DBF),
     (0x4E00, 0x9FFF), (0xF900, 0xFAFF)]"

definition QUOTE_OPEN :: cset where
  "QUOTE_OPEN = Chars [(0x22, 0x22), (0x27, 0x27), (0x28, 0x28), (0x5B, 0x5B), (0x7B, 0x7B),
     (0x3C, 0x3C), (0x201C, 0x201C)]"

definition QUOTE_CLOSE :: cset where
  "QUOTE_CLOSE = Chars [(0x22, 0x22), (0x27, 0x27), (0x29, 0x29), (0x5D, 0x5D), (0x7D, 0x7D),
     (0x3E, 0x3E), (0x201D, 0x201D)]"

definition BLANK :: cset where
  "BLANK = Chars [(0x20, 0x20)]"

definition APOSTROPHE :: cset where
  "APOSTROPHE = Chars [(0x27, 0x27)]"

definition LETTER :: cset where
  "LETTER = Chars [(0x41, 0x5A), (0x61, 0x7A)]"

definition HASH :: cset where
  "HASH = Chars [(0x23, 0x23)]"

definition OPERATOR :: cset where
  "OPERATOR = Chars [(0x2B, 0x2B), (0x2D, 0x2D), (0x2A, 0x2A), (0x2F, 0x2F), (0x3D, 0x3D),
     (0x26, 0x26), (0x5C, 0x5C), (0x7C, 0x7C), (0x3C, 0x3C), (0x3E, 0x3E)]"

definition ALNUM :: cset where
  "ALNUM = Chars [(0x41, 0x5A), (0x61, 0x7A), (0x30, 0x39)]"

definition BRACKET_OPEN :: cset where
  "BRACKET_OPEN = Chars [(0x28, 0x28), (0x5B, 0x5B), (0x7B, 0x7B), (0x3C, 0x3C), (0x201C, 0x201C)]"

definition BRACKET_CLOSE :: cset where
  "BRACKET_CLOSE = Chars [(0x29, 0x29), (0x5D, 0x5D), (0x7D, 0x7D), (0x3E, 0x3E), (0x201D, 0x201D)]"

text \<open>The second set of \<^verbatim>\<open>CJK_BRACKET_RE\<close> and the first of \<^verbatim>\<open>BRACKET_CJK_RE\<close>.\<close>

definition AFTER_CJK_BRACKET :: cset where
  "AFTER_CJK_BRACKET = Chars [(0x28, 0x28), (0x5B, 0x5B), (0x7B, 0x7B), (0x3C, 0x3C),
     (0x201C, 0x201C), (0x3E, 0x3E)]"

definition BEFORE_CJK_BRACKET :: cset where
  "BEFORE_CJK_BRACKET = Chars [(0x29, 0x29), (0x5D, 0x5D), (0x7D, 0x7D), (0x3E, 0x3E),
     (0x201D, 0x201D), (0x3C, 0x3C)]"

definition SYMBOL :: cset where
  "SYMBOL = Chars [(0x7E, 0x7E), (0x21, 0x21), (0x3B, 0x3B), (0x3A, 0x3A), (0x2C, 0x2C),
     (0x2E, 0x2E), (0x3F, 0x3F), (0x2026, 0x2026)]"

text \<open>The second set of \<^verbatim>\<open>CJK_ANS_RE\<close>.\<close>

definition ANS_AFTER_CJK :: cset where
  "ANS_AFTER_CJK = Chars [(0x41, 0x5A), (0x61, 0x7A), (0x30, 0x39), (0x60, 0x60), (0x24, 0x24),
     (0x25, 0x25), (0x5E, 0x5E), (0x26, 0x26), (0x2A, 0x2A), (0x2D, 0x2D), (0x3D, 0x3D),
     (0x2B, 0x2B), (0x5C, 0x5C), (0x7C, 0x7C), (0x2F, 0x2F), (0x40, 0x40), (0xA1, 0xFF),
     (0x2022, 0x2022), (0x2027, 0x2027), (0x2150, 0x218F)]"

text \<open>The first set of \<^verbatim>\<open>ANS_CJK_RE\<close>.\<close>

definition ANS_BEFORE_CJK :: cset where
  "ANS_BEFORE_CJK = Chars [(0x41, 0x5A), (0x61, 0x7A), (0x30, 0x39), (0x60, 0x60), (0x7E, 0x7E),
     (0x24, 0x24), (0x25, 0x25), (0x5E, 0x5E), (0x26, 0x26), (0x2A, 0x2A), (0x2D, 0x2D),
     (0x3D, 0x3D), (0x2B, 0x2B), (0x5C, 0x5C), (0x7C, 0x7C), (0x2F, 0x2F), (0x21, 0x21),
     (0x3B, 0x3B), (0x3A, 0x3A), (0x2C, 0x2C), (0x2E, 0x2E), (0x3F, 0x3F), (0xA1, 0xFF),
     (0x2022, 0x2022), (0x2026, 0x2026), (0x2027, 0x2027), (0x2150, 0x218F)]"

section \<open>Patterns and backtracking matching\<close>

text \<open>
  The patterns of the source use one character of a set, a set repeated greedily (\<^verbatim>\<open>+\<close>,
  \<^verbatim>\<open>*\<close>) or lazily (\<^verbatim>\<open>+?\<close>, \<^verbatim>\<open>*?\<close>), concatenation and capturing groups, and nothing else:
  no alternative, no anchor, no look-around, no repetition of anything longer than one
  character.
\<close>

datatype rx = One cset | Plus cset | Star cset | LazyPlus cset | LazyStar cset
  | Cat rx rx | Grp rx

text \<open>
  \<open>runs c s\<close> lists what is left of \<open>s\<close> after taking 0, 1, 2, ... leading characters of
  the set \<open>c\<close>, as far as they are in the set.
\<close>

fun runs :: "cset \<Rightarrow> ustr \<Rightarrow> ustr list" where
  "runs c [] = [[]]"
| "runs c (x # xs) = (x # xs) # (if in_class c x then runs c xs else [])"

text \<open>
  \<open>ms r s\<close> is the list of all ways in which \<open>r\<close> matches at the start of \<open>s\<close>, in the
  order in which a backtracking matcher tries them: a greedy repetition tries the longest
  run first, a lazy one the shortest, and in a concatenation the later choice is revised
  before the earlier one.  Each way is the list of the texts captured by the groups, in the
  order of their opening parentheses, and the rest of \<open>s\<close> after the match.
\<close>

fun ms :: "rx \<Rightarrow> ustr \<Rightarrow> (ustr list \<times> ustr) list" where
  "ms (One c) s = (case s of [] \<Rightarrow> [] | x # xs \<Rightarrow> if in_class c x then [([], xs)] else [])"
| "ms (Plus c) s = map (Pair []) (rev (tl (runs c s)))"
| "ms (Star c) s = map (Pair []) (rev (runs c s))"
| "ms (LazyPlus c) s = map (Pair []) (tl (runs c s))"
| "ms (LazyStar c) s = map (Pair []) (runs c s)"
| "ms (Cat a b) s =
     concat (map (\<lambda>(g1, r1). map (\<lambda>(g2, r2). (g1 @ g2, r2)) (ms b r1)) (ms a s))"
| "ms (Grp a) s = map (\<lambda>(g, r). (take (length s - length r) s # g, r)) (ms a s)"

text \<open>The match that the matcher reports at the start of \<open>s\<close>: the first one it finds.\<close>

definition first_match :: "rx \<Rightarrow> ustr \<Rightarrow> (ustr list \<times> ustr) option" where
  "first_match r s = (case ms r s of [] \<Rightarrow> None | m # _ \<Rightarrow> Some m)"

text \<open>
  A replacement template is a list of group references (\<^verbatim>\<open>\1\<close> is \<open>Ref 1\<close>) and literal
  texts.  Python rejects a template that refers to a group the pattern does not have; no
  template of the source does (\<open>tmpl_ok\<close> below), and here such a reference expands to nothing.
\<close>

datatype titem = Ref nat | Lit ustr

fun expand_item :: "ustr list \<Rightarrow> titem \<Rightarrow> ustr" where
  "expand_item gs (Ref n) = (if 0 < n \<and> n \<le> length gs then gs ! (n - 1) else [])"
| "expand_item gs (Lit t) = t"

definition expand :: "titem list \<Rightarrow> ustr list \<Rightarrow> ustr" where
  "expand t gs = concat (map (expand_item gs) t)"

fun ngroups :: "rx \<Rightarrow> nat" where
  "ngroups (Cat a b) = ngroups a + ngroups b"
| "ngroups (Grp a) = Suc (ngroups a)"
| "ngroups _ = 0"

fun item_ok :: "nat \<Rightarrow> titem \<Rightarrow> bool" where
  "item_ok n (Ref k) = (0 < k \<and> k \<le> n)"
| "item_ok n (Lit t) = True"

definition tmpl_ok :: "rx \<Rightarrow> titem list \<Rightarrow> bool" where
  "tmpl_ok r t = list_all (item_ok (ngroups r)) t"

text \<open>
  \<^verbatim>\<open>pattern.sub(template, s)\<close>: scan \<open>s\<close> from the left; where the pattern matches, emit the
  expanded template and go on after the match; elsewhere copy one character.  No pattern of
  the source has an anchor or a look-behind, so whether it matches at a position depends on
  the text from that position on only.  A match that consumes nothing cannot happen with
  these patterns (each needs two characters at least); the scan steps over it.
\<close>

function re_sub :: "rx \<Rightarrow> titem list \<Rightarrow> ustr \<Rightarrow> ustr" where
  "re_sub r t [] = []"
| "re_sub r t (x # xs) =
     (case first_match r (x # xs) of
        None \<Rightarrow> x # re_sub r t xs
      | Some (gs, rest) \<Rightarrow>
          if length rest \<le> length xs then expand t gs @ re_sub r t rest
          else x # re_sub r t xs)"
  by pat_completeness auto
termination
  by (relation "measure (\<lambda>(r, t, s). length s)") auto

text \<open>\<^verbatim>\<open>str.strip()\<close>: drop the leading and the trailing white space.\<close>

definition strip :: "ustr \<Rightarrow> ustr" where
  "strip s = rev (dropWhile is_space (rev (dropWhile is_space s)))"

section \<open>The patterns of the source\<close>

definition CJK_QUOTE_RE :: rx where
  "CJK_QUOTE_RE = Cat (Grp (One CJK)) (Grp (One QUOTE))"

definition QUOTE_CJK_RE :: rx where
  "QUOTE_CJK_RE = Cat (Grp (One QUOTE)) (Grp (One CJK_AFTER_QUOTE))"

definition FIX_QUOTE_RE :: rx where
  "FIX_QUOTE_RE = Cat (Grp (Plus QUOTE_OPEN)) (Cat (Grp (Star Space)) (Cat (Grp (LazyPlus Dot))
     (Cat (Grp (Star Space)) (Grp (Plus QUOTE_CLOSE)))))"

definition FIX_SINGLE_QUOTE_RE :: rx where
  "FIX_SINGLE_QUOTE_RE = Cat (Grp (One CJK)) (Cat (Grp (One BLANK)) (Cat (Grp (One APOSTROPHE))
     (Grp (One LETTER))))"

definition CJK_HASH_RE :: rx where
  "CJK_HASH_RE = Cat (Grp (One CJK)) (Grp (Cat (One HASH) (Grp (Plus NonSpace))))"

definition HASH_CJK_RE :: rx where
  "HASH_CJK_RE = Cat (Grp (Cat (Grp (Plus NonSpace)) (One HASH))) (Grp (One CJK))"

definition CJK_OPERATOR_ANS_RE :: rx where
  "CJK_OPERATOR_ANS_RE = Cat (Grp (One CJK)) (Cat (Grp (One OPERATOR)) (Grp (One ALNUM)))"

definition ANS_OPERATOR_CJK_RE :: rx where
  "ANS_OPERATOR_CJK_RE = Cat (Grp (One ALNUM)) (Cat (Grp (One OPERATOR)) (Grp (One CJK)))"

definition CJK_BRACKET_CJK_RE :: rx where
  "CJK_BRACKET_CJK_RE = Cat (Grp (One CJK))
     (Cat (Grp (Cat (Plus BRACKET_OPEN) (Cat (Grp (LazyStar Dot)) (Plus BRACKET_CLOSE))))
       (Grp (One CJK)))"

definition CJK_BRACKET_RE :: rx where
  "CJK_BRACKET_RE = Cat (Grp (One CJK)) (Grp (One AFTER_CJK_BRACKET))"

definition BRACKET_CJK_RE :: rx where
  "BRACKET_CJK_RE = Cat (Grp (One BEFORE_CJK_BRACKET)) (Grp (One CJK))"

definition FIX_BRACKET_RE :: rx where
  "FIX_BRACKET_RE = Cat (Grp (Plus BRACKET_OPEN)) (Cat (Grp (Star Space))
     (Cat (Grp (LazyPlus Dot)) (Cat (Grp (Star Space)) (Grp (Plus BRACKET_CLOSE)))))"

definition FIX_SYMBOL_RE :: rx where
  "FIX_SYMBOL_RE = Cat (Grp (One CJK)) (Cat (Grp (One SYMBOL)) (Grp (One ALNUM)))"

definition CJK_ANS_RE :: rx where
  "CJK_ANS_RE = Cat (Grp (One CJK)) (Grp (One ANS_AFTER_CJK))"

definition ANS_CJK_RE :: rx where
  "ANS_CJK_RE = Cat (Grp (One ANS_BEFORE_CJK)) (Grp (One CJK))"

text \<open>The replacement templates, named by the groups they keep.\<close>

definition T_1_2 :: "titem list" where
  "T_1_2 = [Ref 1, Lit [0x20], Ref 2]"

definition T_1_3 :: "titem list" where
  "T_1_3 = [Ref 1, Lit [0x20], Ref 3]"

definition T_135 :: "titem list" where
  "T_135 = [Ref 1, Ref 3, Ref 5]"

definition T_134 :: "titem list" where
  "T_134 = [Ref 1, Ref 3, Ref 4]"

definition T_1_2_3 :: "titem list" where
  "T_1_2_3 = [Ref 1, Lit [0x20], Ref 2, Lit [0x20], Ref 3]"

definition T_1_2_4 :: "titem list" where
  "T_1_2_4 = [Ref 1, Lit [0x20], Ref 2, Lit [0x20], Ref 4]"

definition T_12_3 :: "titem list" where
  "T_12_3 = [Ref 1, Ref 2, Lit [0x20], Ref 3]"

section \<open>The spacing function\<close>

definition spacing_text :: "ustr \<Rightarrow> ustr" where
  "spacing_text text =
    (let new_text = text in
     if length new_text < 2 then new_text
     else
       let new_text = re_sub CJK_QUOTE_RE T_1_2 new_text;
           new_text = re_sub QUOTE_CJK_RE T_1_2 new_text;
           new_text = re_sub FIX_QUOTE_RE T_135 new_text;
           new_text = re_sub FIX_SINGLE_QUOTE_RE T_134 new_text;
           new_text = re_sub CJK_HASH_RE T_1_2 new_text;
           new_text = re_sub HASH_CJK_RE T_1_3 new_text;
           new_text = re_sub CJK_OPERATOR_ANS_RE T_1_2_3 new_text;
           new_text = re_sub ANS_OPERATOR_CJK_RE T_1_2_3 new_text;
           old_text = new_text;
           tmp_text = re_sub CJK_BRACKET_CJK_RE T_1_2_4 new_text;
           new_text = tmp_text;
           new_text = (if old_text = tmp_text
                       then let new_text = re_sub CJK_BRACKET_RE T_1_2 new_text
                            in re_sub BRACKET_CJK_RE T_1_2 new_text
                       else new_text);
           new_text = re_sub FIX_BRACKET_RE T_135 new_text;
           new_text = re_sub FIX_SYMBOL_RE T_12_3 new_text;
           new_text = re_sub CJK_ANS_RE T_1_2 new_text;
           new_text = re_sub ANS_CJK_RE T_1_2 new_text
       in strip new_text)"

text \<open>
  The value of \<^verbatim>\<open>new_text\<close> at three points of \<open>spacing_text\<close>: after the quote, hash and
  operator rules (line 79 of the source), after the rules that follow the bracket spacing
  (lines 87 to 92, as a function of the text they start from), and just before the strip.
\<close>

definition quote_hash_operator_rules :: "ustr \<Rightarrow> ustr" where
  "quote_hash_operator_rules s =
     re_sub ANS_OPERATOR_CJK_RE T_1_2_3 (re_sub CJK_OPERATOR_ANS_RE T_1_2_3
       (re_sub HASH_CJK_RE T_1_3 (re_sub CJK_HASH_RE T_1_2
         (re_sub FIX_SINGLE_QUOTE_RE T_134 (re_sub FIX_QUOTE_RE T_135
           (re_sub QUOTE_CJK_RE T_1_2 (re_sub CJK_QUOTE_RE T_1_2 s)))))))"

definition closing_rules :: "ustr \<Rightarrow> ustr" where
  "closing_rules s =
     re_sub ANS_CJK_RE T_1_2 (re_sub CJK_ANS_RE T_1_2
       (re_sub FIX_SYMBOL_RE T_12_3 (re_sub FIX_BRACKET_RE T_135 s)))"

definition bracket_rules :: "ustr \<Rightarrow> ustr" where
  "bracket_rules old_text =
     (let tmp_text = re_sub CJK_BRACKET_CJK_RE T_1_2_4 old_text
      in if old_text = tmp_text
         then re_sub BRACKET_CJK_RE T_1_2 (re_sub CJK_BRACKET_RE T_1_2 tmp_text)
         else tmp_text)"

definition rewritten :: "ustr \<Rightarrow> ustr" where
  "rewritten s = closing_rules (bracket_rules (quote_hash_operator_rules s))"

text \<open>
  The six blocks of substitutions that blank lines separate in the source: the quote rules
  (lines 70 to 73), the hash rules (75, 76), the operator rules (78, 79), the bracket rules
  with the bracket cleanup (81 to 87), the symbol rule (89) and the two general rules
  (91, 92).
\<close>

definition quote_rules :: "ustr \<Rightarrow> ustr" where
  "quote_rules s = re_sub FIX_SINGLE_QUOTE_RE T_134 (re_sub FIX_QUOTE_RE T_135
     (re_sub QUOTE_CJK_RE T_1_2 (re_sub CJK_QUOTE_RE T_1_2 s)))"

definition hash_rules :: "ustr \<Rightarrow> ustr" where
  "hash_rules s = re_sub HASH_CJK_RE T_1_3 (re_sub CJK_HASH_RE T_1_2 s)"

definition operator_rules :: "ustr \<Rightarrow> ustr" where
  "operator_rules s = re_sub ANS_OPERATOR_CJK_RE T_1_2_3 (re_sub CJK_OPERATOR_ANS_RE T_1_2_3 s)"

definition bracket_block :: "ustr \<Rightarrow> ustr" where
  "bracket_block s = re_sub FIX_BRACKET_RE T_135 (bracket_rules s)"

definition symbol_rule :: "ustr \<Rightarrow> ustr" where
  "symbol_rule s = re_sub FIX_SYMBOL_RE T_12_3 s"

definition general_rules :: "ustr \<Rightarrow> ustr" where
  "general_rules s = re_sub ANS_CJK_RE T_1_2 (re_sub CJK_ANS_RE T_1_2 s)"

text \<open>
  A text is correctly spaced when the rules find nothing to do in it: none of the six blocks
  changes it, and it has no white space at its ends.
\<close>

definition correctly_spaced :: "ustr \<Rightarrow> bool" where
  "correctly_spaced t = (quote_rules t = t \<and> hash_rules t = t \<and> operator_rules t = t
     \<and> bracket_block t = t \<and> symbol_rule t = t \<and> general_rules t = t \<and> strip t = t)"

text \<open>
  The characters without which none of the patterns before the general rules can match:
  the quotes, the brackets of the bracket sets, the hash sign, the operators and the symbols.
  A plain text has none of them.
\<close>

definition TRIGGER :: cset where
  "TRIGGER = Chars [(0x22, 0x22), (0x27, 0x27), (0x28, 0x28), (0x29, 0x29), (0x5B, 0x5B),
     (0x5D, 0x5D), (0x7B, 0x7B), (0x7D, 0x7D), (0x3C, 0x3C), (0x3E, 0x3E), (0x201C, 0x201C),
     (0x201D, 0x201D), (0x23, 0x23), (0x2B, 0x2B), (0x2D, 0x2D), (0x2A, 0x2A), (0x2F, 0x2F),
     (0x3D, 0x3D), (0x26, 0x26), (0x5C, 0x5C), (0x7C, 0x7C), (0x7E, 0x7E), (0x21, 0x21),
     (0x3B, 0x3B), (0x3A, 0x3A), (0x2C, 0x2C), (0x2E, 0x2E), (0x3F, 0x3F), (0x2026, 0x2026)]"

definition plain :: "ustr \<Rightarrow> bool" where
  "plain s = list_all (\<lambda>c. \<not> in_class TRIGGER c) s"

text \<open>
  \<open>has_pair a b s\<close>: somewhere in \<open>s\<close> a character of the set \<open>a\<close> is immediately followed
  by one of the set \<open>b\<close>.  \<open>spaced_pairs a b s\<close> puts U+0020 into every such pair, scanning
  from the left and going on after the pair, which is what the substitution of a
  two-character pattern with the template \<^verbatim>\<open>\1 \2\<close> does (lemma \<open>re_sub_pair\<close>).
\<close>

fun has_pair :: "cset \<Rightarrow> cset \<Rightarrow> ustr \<Rightarrow> bool" where
  "has_pair a b (x # y # zs) = ((in_class a x \<and> in_class b y) \<or> has_pair a b (y # zs))"
| "has_pair a b [x] = False"
| "has_pair a b [] = False"

fun spaced_pairs :: "cset \<Rightarrow> cset \<Rightarrow> ustr \<Rightarrow> ustr" where
  "spaced_pairs a b (x # y # zs) =
     (if in_class a x \<and> in_class b y then x # 0x20 # y # spaced_pairs a b zs
      else x # spaced_pairs a b (y # zs))"
| "spaced_pairs a b [x] = [x]"
| "spaced_pairs a b [] = []"

text \<open>The least number of characters that a match of a pattern has.\<close>

fun min_len :: "rx \<Rightarrow> nat" where
  "min_len (One c) = 1"
| "min_len (Plus c) = 1"
| "min_len (LazyPlus c) = 1"
| "min_len (Star c) = 0"
| "min_len (LazyStar c) = 0"
| "min_len (Cat a b) = min_len a + min_len b"
| "min_len (Grp a) = min_len a"

text \<open>\<open>occurs r s\<close>: the pattern \<open>r\<close> matches at some position of \<open>s\<close>.\<close>

fun occurs :: "rx \<Rightarrow> ustr \<Rightarrow> bool" where
  "occurs r [] = False"
| "occurs r (x # xs) =
     (case first_match r (x # xs) of Some m \<Rightarrow> True | None \<Rightarrow> occurs r xs)"

text \<open>
  The shape that \<^verbatim>\<open>FIX_QUOTE_RE\<close> and \<^verbatim>\<open>FIX_BRACKET_RE\<close> share: a run of opening
  delimiters, white space, a lazy run of anything, white space, a run of closing delimiters.
\<close>

definition fix_rx :: "cset \<Rightarrow> cset \<Rightarrow> rx" where
  "fix_rx a b = Cat (Grp (Plus a)) (Cat (Grp (Star Space)) (Cat (Grp (LazyPlus Dot))
     (Cat (Grp (Star Space)) (Grp (Plus b)))))"

section \<open>What a pattern matches\<close>

text \<open>
  \<open>lang r u gs\<close>: the pattern \<open>r\<close> matches exactly the text \<open>u\<close>, its groups capturing
  \<open>gs\<close>.  It says which matches exist, not which one the matcher prefers.
\<close>

fun lang :: "rx \<Rightarrow> ustr \<Rightarrow> ustr list \<Rightarrow> bool" where
  "lang (One c) u g = ((\<exists>x. u = [x] \<and> in_class c x) \<and> g = [])"
| "lang (Plus c) u g = (u \<noteq> [] \<and> (\<forall>x\<in>set u. in_class c x) \<and> g = [])"
| "lang (Star c) u g = ((\<forall>x\<in>set u. in_class c x) \<and> g = [])"
| "lang (LazyPlus c) u g = (u \<noteq> [] \<and> (\<forall>x\<in>set u. in_class c x) \<and> g = [])"
| "lang (LazyStar c) u g = ((\<forall>x\<in>set u. in_class c x) \<and> g = [])"
| "lang (Cat a b) u g =
     (\<exists>u1 u2 g1 g2. u = u1 @ u2 \<and> g = g1 @ g2 \<and> lang a u1 g1 \<and> lang b u2 g2)"
| "lang (Grp a) u g = (\<exists>g'. g = u # g' \<and> lang a u g')"

text \<open>
  \<open>respaced s out\<close>: \<open>out\<close> has the non-white-space characters of \<open>s\<close>, in the same
  order, and apart from the character U+0020 it has nothing that \<open>s\<close> has not: \<open>out\<close>
  comes from \<open>s\<close> by deleting white space and inserting U+0020.
\<close>

definition respaced :: "ustr \<Rightarrow> ustr \<Rightarrow> bool" where
  "respaced s out = (filter (\<lambda>c. \<not> is_space c) out = filter (\<lambda>c. \<not> is_space c) s
     \<and> subseq (filter (\<lambda>c. c \<noteq> 0x20) out) (filter (\<lambda>c. c \<noteq> 0x20) s))"

section \<open>The character classes and the inputs of the specification\<close>

text \<open>
  The class ANS as the specification lists it (section 3), for comparison with the two sets
  of the source: ASCII letters and digits, the symbols
  \<^verbatim>\<open>` ~ $ % ^ & * - = + \ | / @\<close>, U+00A1 to U+00FF, U+2022, U+2026, U+2027, and U+2150 to
  U+218F.
\<close>

definition ANS_of_spec :: cset where
  "ANS_of_spec = Chars [(0x41, 0x5A), (0x61, 0x7A), (0x30, 0x39), (0x60, 0x60), (0x7E, 0x7E),
     (0x24, 0x24), (0x25, 0x25), (0x5E, 0x5E), (0x26, 0x26), (0x2A, 0x2A), (0x2D, 0x2D),
     (0x3D, 0x3D), (0x2B, 0x2B), (0x5C, 0x5C), (0x7C, 0x7C), (0x2F, 0x2F), (0x40, 0x40),
     (0xA1, 0xFF), (0x2022, 0x2022), (0x2026, 0x2026), (0x2027, 0x2027), (0x2150, 0x218F)]"

text \<open>
  The inputs of the specification's testable properties (section 8), as code points.  The
  first is the sentence of the module's docstring, with three Latin letters after U+8457 and
  before U+4E5F; \<open>film_text\<close> has the full-width parentheses U+FF08 and U+FF09.
\<close>

definition bug_text :: ustr where
  "bug_text = [0x7576, 0x4F60, 0x51DD, 0x8996, 0x8457, 0x62, 0x75, 0x67, 0xFF0C, 0x62, 0x75,
     0x67, 0x4E5F, 0x51DD, 0x8996, 0x8457, 0x4F60]"

definition bug_text_spaced :: ustr where
  "bug_text_spaced = [0x7576, 0x4F60, 0x51DD, 0x8996, 0x8457, 0x20, 0x62, 0x75, 0x67, 0xFF0C,
     0x62, 0x75, 0x67, 0x20, 0x4E5F, 0x51DD, 0x8996, 0x8457, 0x4F60]"

definition android_text :: ustr where
  "android_text = [0x9019, 0x662F, 0x4E00, 0x500B, 0x41, 0x4E, 0x44, 0x52, 0x4F, 0x49, 0x44,
     0x20, 0x41, 0x50, 0x50]"

definition quotes_text :: ustr where
  "quotes_text = [0x300C, 0x7E41, 0x9AD4, 0x5B57, 0x300D, 0x8207, 0x22, 0x7C21, 0x9AD4, 0x5B57,
     0x22]"

definition hash_world_text :: ustr where
  "hash_world_text = [0x4F60, 0x597D, 0x23, 0x77, 0x6F, 0x72, 0x6C, 0x64]"

definition hello_hash_text :: ustr where
  "hello_hash_text = [0x68, 0x65, 0x6C, 0x6C, 0x6F, 0x23, 0x4F60, 0x597D]"

definition film_text :: ustr where
  "film_text = [0x5F71, 0x7247, 0xFF08, 0x500B, 0x4EBA, 0x96FB, 0x8166, 0x904A, 0x6232, 0xFF09]"

text \<open>
  What \<open>spacing_text\<close> returns for four of them (proved below), and two variants of
  \<open>film_text\<close> with the ASCII parentheses: as it is, and with U+6232 moved behind the
  closing parenthesis.
\<close>

definition android_text_spaced :: ustr where
  "android_text_spaced = [0x9019, 0x662F, 0x4E00, 0x500B, 0x20, 0x41, 0x4E, 0x44, 0x52, 0x4F,
     0x49, 0x44, 0x20, 0x41, 0x50, 0x50]"

definition quotes_text_spaced :: ustr where
  "quotes_text_spaced = [0x300C, 0x7E41, 0x9AD4, 0x5B57, 0x300D, 0x8207, 0x20, 0x22, 0x7C21,
     0x9AD4, 0x5B57, 0x22]"

definition hash_world_text_spaced :: ustr where
  "hash_world_text_spaced = [0x4F60, 0x597D, 0x20, 0x23, 0x77, 0x6F, 0x72, 0x6C, 0x64]"

definition hello_hash_text_spaced :: ustr where
  "hello_hash_text_spaced = [0x68, 0x65, 0x6C, 0x6C, 0x6F, 0x23, 0x20, 0x4F60, 0x597D]"

definition film_text_ascii :: ustr where
  "film_text_ascii = [0x5F71, 0x7247, 0x28, 0x500B, 0x4EBA, 0x96FB, 0x8166, 0x904A, 0x6232, 0x29]"

definition film_text_ascii_inner :: ustr where
  "film_text_ascii_inner = [0x5F71, 0x7247, 0x28, 0x500B, 0x4EBA, 0x96FB, 0x8166, 0x904A, 0x29,
     0x6232]"

text \<open>
  Further texts: a CJK character, a parenthesised letter, a CJK character and an opening
  parenthesis; and two spans with inner white space and a letter between them, in straight
  double quotes and in parentheses.
\<close>

definition bracket_then_open_text :: ustr where
  "bracket_then_open_text = [0x4E2D, 0x28, 0x61, 0x29, 0x6F22, 0x28]"

definition two_quoted_spans :: ustr where
  "two_quoted_spans = [0x22, 0x20, 0x61, 0x20, 0x22, 0x20, 0x62, 0x20, 0x22, 0x20, 0x63, 0x20,
     0x22]"

definition two_bracketed_spans :: ustr where
  "two_bracketed_spans = [0x28, 0x20, 0x61, 0x20, 0x29, 0x20, 0x62, 0x20, 0x28, 0x20, 0x63,
     0x20, 0x29]"

section \<open>Evaluation\<close>

lemmas cls_defs = CJK_def QUOTE_def CJK_AFTER_QUOTE_def QUOTE_OPEN_def QUOTE_CLOSE_def BLANK_def
  APOSTROPHE_def LETTER_def HASH_def OPERATOR_def ALNUM_def BRACKET_OPEN_def BRACKET_CLOSE_def
  AFTER_CJK_BRACKET_def BEFORE_CJK_BRACKET_def SYMBOL_def ANS_AFTER_CJK_def ANS_BEFORE_CJK_def

lemmas rx_defs = CJK_QUOTE_RE_def QUOTE_CJK_RE_def FIX_QUOTE_RE_def FIX_SINGLE_QUOTE_RE_def
  CJK_HASH_RE_def HASH_CJK_RE_def CJK_OPERATOR_ANS_RE_def ANS_OPERATOR_CJK_RE_def
  CJK_BRACKET_CJK_RE_def CJK_BRACKET_RE_def BRACKET_CJK_RE_def FIX_BRACKET_RE_def
  FIX_SYMBOL_RE_def CJK_ANS_RE_def ANS_CJK_RE_def

lemmas tmpl_defs = T_1_2_def T_1_3_def T_135_def T_134_def T_1_2_3_def T_1_2_4_def T_12_3_def

lemmas eval_defs = cls_defs rx_defs tmpl_defs first_match_def expand_def is_space_def strip_def

lemmas stage_defs = quote_hash_operator_rules_def bracket_rules_def closing_rules_def
  rewritten_def

lemma spacing_text_stages:
  "spacing_text s = (if length s < 2 then s else strip (rewritten s))"
  by (simp add: spacing_text_def stage_defs Let_def)

lemma templates_ok:
  "tmpl_ok CJK_QUOTE_RE T_1_2" "tmpl_ok QUOTE_CJK_RE T_1_2" "tmpl_ok FIX_QUOTE_RE T_135"
  "tmpl_ok FIX_SINGLE_QUOTE_RE T_134" "tmpl_ok CJK_HASH_RE T_1_2" "tmpl_ok HASH_CJK_RE T_1_3"
  "tmpl_ok CJK_OPERATOR_ANS_RE T_1_2_3" "tmpl_ok ANS_OPERATOR_CJK_RE T_1_2_3"
  "tmpl_ok CJK_BRACKET_CJK_RE T_1_2_4" "tmpl_ok CJK_BRACKET_RE T_1_2"
  "tmpl_ok BRACKET_CJK_RE T_1_2" "tmpl_ok FIX_BRACKET_RE T_135" "tmpl_ok FIX_SYMBOL_RE T_12_3"
  "tmpl_ok CJK_ANS_RE T_1_2" "tmpl_ok ANS_CJK_RE T_1_2"
  by (simp_all add: tmpl_ok_def rx_defs tmpl_defs)

section \<open>Short inputs\<close>

text \<open>
  Claim C7: for every input of fewer than two code points (the empty text and a single white
  space character among them), \<open>spacing_text\<close> returns the input as it is: no rule is
  applied and nothing is stripped.
\<close>

theorem spacing_text_short:
  "length s < 2 \<Longrightarrow> spacing_text s = s"
  by (simp add: spacing_text_def)

theorem spacing_text_short_witness:
  "length [0x20::nat] < 2 \<and> spacing_text [0x20] = [0x20] \<and> is_space 0x20
     \<and> length ([]::nat list) < 2 \<and> spacing_text [] = []"
  using spacing_text_short [of "[0x20]"] spacing_text_short [of "[]"]
  by (simp add: is_space_def)

section \<open>The inputs of the specification\<close>

lemmas run_defs = spacing_text_stages stage_defs eval_defs

lemma spacing_bug_text: "spacing_text bug_text = bug_text_spaced"
  by (simp add: run_defs bug_text_def bug_text_spaced_def)

lemma spacing_bug_text_spaced: "spacing_text bug_text_spaced = bug_text_spaced"
  by (simp add: run_defs bug_text_spaced_def)

lemma spacing_android_text: "spacing_text android_text = android_text_spaced"
  by (simp add: run_defs android_text_def android_text_spaced_def)

lemma spacing_android_text_spaced: "spacing_text android_text_spaced = android_text_spaced"
  by (simp add: run_defs android_text_spaced_def)

lemma spacing_quotes_text: "spacing_text quotes_text = quotes_text_spaced"
  by (simp add: run_defs quotes_text_def quotes_text_spaced_def)

lemma spacing_quotes_text_spaced: "spacing_text quotes_text_spaced = quotes_text_spaced"
  by (simp add: run_defs quotes_text_spaced_def)

lemma spacing_hash_world_text: "spacing_text hash_world_text = hash_world_text_spaced"
  by (simp add: run_defs hash_world_text_def hash_world_text_spaced_def)

lemma spacing_hash_world_text_spaced:
  "spacing_text hash_world_text_spaced = hash_world_text_spaced"
  by (simp add: run_defs hash_world_text_spaced_def)

lemma spacing_hello_hash_text: "spacing_text hello_hash_text = hello_hash_text_spaced"
  by (simp add: run_defs hello_hash_text_def hello_hash_text_spaced_def)

lemma spacing_hello_hash_text_spaced:
  "spacing_text hello_hash_text_spaced = hello_hash_text_spaced"
  by (simp add: run_defs hello_hash_text_spaced_def)

lemma spacing_film_text: "spacing_text film_text = film_text"
  by (simp add: run_defs film_text_def)

text \<open>
  Claim C1: \<open>spacing_text\<close> applied to the sentence of the docstring (\<open>bug_text\<close>) returns
  exactly that sentence with one space before the first Latin word and one after the
  second (\<open>bug_text_spaced\<close>).
\<close>

theorem docstring_example:
  "spacing_text bug_text = bug_text_spaced"
  by (rule spacing_bug_text)

text \<open>
  Claim C3: on the representative inputs of the specification, applying \<open>spacing_text\<close> to
  its own output changes nothing.  The specification does not say what correct spacing is
  apart from these inputs, so the statement is about them: the six texts of its section 8
  and the empty text.
\<close>

theorem idempotent_on_representative_inputs:
  "spacing_text (spacing_text bug_text) = spacing_text bug_text
   \<and> spacing_text (spacing_text android_text) = spacing_text android_text
   \<and> spacing_text (spacing_text quotes_text) = spacing_text quotes_text
   \<and> spacing_text (spacing_text hash_world_text) = spacing_text hash_world_text
   \<and> spacing_text (spacing_text hello_hash_text) = spacing_text hello_hash_text
   \<and> spacing_text (spacing_text film_text) = spacing_text film_text
   \<and> spacing_text (spacing_text []) = spacing_text []"
  by (simp add: spacing_bug_text spacing_bug_text_spaced spacing_android_text
      spacing_android_text_spaced spacing_quotes_text spacing_quotes_text_spaced
      spacing_hash_world_text spacing_hash_world_text_spaced spacing_hello_hash_text
      spacing_hello_hash_text_spaced spacing_film_text)
    (simp add: spacing_text_def)

text \<open>
  Without the restriction to such inputs the property fails: the collapsing rule fires on the
  first run and suppresses the single-sided rule, which then fires on the second run.
\<close>

lemma not_idempotent_in_general:
  "spacing_text [0x4E2D, 0x28, 0x61, 0x29, 0x6F22, 0x28]
     = [0x4E2D, 0x20, 0x28, 0x61, 0x29, 0x20, 0x6F22, 0x28]
   \<and> spacing_text [0x4E2D, 0x20, 0x28, 0x61, 0x29, 0x20, 0x6F22, 0x28]
     = [0x4E2D, 0x20, 0x28, 0x61, 0x29, 0x20, 0x6F22, 0x20, 0x28]"
  by (simp add: run_defs)

text \<open>
  Claim C4, as the code has it: the parentheses of \<open>film_text\<close> are the full-width U+FF08
  and U+FF09, which no bracket set of the source contains, so \<open>spacing_text\<close> returns
  \<open>film_text\<close> unchanged.  With the ASCII parentheses, a space is put before the opening
  one by the single-sided rule when nothing follows the closing one, and around the whole
  bracketed unit when a CJK character follows it.
\<close>

theorem film_text_unchanged_ascii_spaced:
  "spacing_text film_text = film_text
   \<and> spacing_text film_text_ascii
       = [0x5F71, 0x7247, 0x20, 0x28, 0x500B, 0x4EBA, 0x96FB, 0x8166, 0x904A, 0x6232, 0x29]
   \<and> spacing_text film_text_ascii_inner
       = [0x5F71, 0x7247, 0x20, 0x28, 0x500B, 0x4EBA, 0x96FB, 0x8166, 0x904A, 0x29, 0x20, 0x6232]"
  by (simp add: spacing_film_text) (simp add: run_defs film_text_ascii_def film_text_ascii_inner_def)

text \<open>Claim C4 as stated fails: the output for \<open>film_text\<close> has no space at all.\<close>

theorem film_text_gets_no_space:
  "0x20 \<notin> set (spacing_text film_text)"
  by (simp add: spacing_film_text) (simp add: film_text_def)

text \<open>
  Claim C5 at the input U+0022 U+2E80: the quotation mark is followed by a character of the
  first CJK range, and no space is put between them, because the second set of
  \<^verbatim>\<open>QUOTE_CJK_RE\<close> leaves out U+2E80 to U+2FDF; in the other order the space is there.
\<close>

theorem quote_before_radical_not_spaced:
  "in_class CJK 0x2E80 \<and> in_class QUOTE 0x22
   \<and> spacing_text [0x22, 0x2E80] = [0x22, 0x2E80]
   \<and> spacing_text [0x2E80, 0x22] = [0x2E80, 0x20, 0x22]"
  by (simp add: run_defs)

section \<open>The matcher finds exactly the matches\<close>

lemma runs_iff: "r \<in> set (runs c s) \<longleftrightarrow> (\<exists>u. s = u @ r \<and> (\<forall>x\<in>set u. in_class c x))"
proof (induction s)
  case Nil
  show ?case by auto
next
  case (Cons x xs)
  show ?case
  proof
    assume "r \<in> set (runs c (x # xs))"
    then consider "r = x # xs" | "in_class c x" "r \<in> set (runs c xs)"
      by (auto split: if_splits)
    then show "\<exists>u. x # xs = u @ r \<and> (\<forall>x\<in>set u. in_class c x)"
    proof cases
      case 1
      then show ?thesis by auto
    next
      case 2
      then obtain u where "xs = u @ r" "\<forall>x\<in>set u. in_class c x" using Cons.IH by auto
      then have "x # xs = (x # u) @ r \<and> (\<forall>y\<in>set (x # u). in_class c y)" using 2 by simp
      then show ?thesis by blast
    qed
  next
    assume "\<exists>u. x # xs = u @ r \<and> (\<forall>x\<in>set u. in_class c x)"
    then obtain u where u: "x # xs = u @ r" "\<forall>x\<in>set u. in_class c x" by auto
    show "r \<in> set (runs c (x # xs))"
    proof (cases u)
      case Nil
      then have "r = x # xs" using u by simp
      then show ?thesis by simp
    next
      case (Cons y ys)
      then have "xs = ys @ r" "in_class c x" "\<forall>x\<in>set ys. in_class c x" using u by auto
      then show ?thesis using Cons.IH by auto
    qed
  qed
qed

lemma runs_hd: "runs c s = s # tl (runs c s)"
  by (cases s) auto

lemma runs_length: "r \<in> set (tl (runs c s)) \<Longrightarrow> length r < length s"
proof (induction s arbitrary: r)
  case Nil
  then show ?case by simp
next
  case (Cons x xs)
  then have "in_class c x" "r \<in> set (runs c xs)" by (auto split: if_splits)
  then have "r = xs \<or> r \<in> set (tl (runs c xs))" by (subst (asm) runs_hd) auto
  then show ?case using Cons.IH by fastforce
qed

lemma tl_runs_iff:
  "r \<in> set (tl (runs c s)) \<longleftrightarrow> (\<exists>u. u \<noteq> [] \<and> s = u @ r \<and> (\<forall>x\<in>set u. in_class c x))"
proof
  assume a: "r \<in> set (tl (runs c s))"
  then have "r \<in> set (runs c s)" by (subst runs_hd) simp
  then obtain u where u: "s = u @ r" "\<forall>x\<in>set u. in_class c x" using runs_iff by blast
  have "length r < length s" using a by (rule runs_length)
  then have "u \<noteq> []" using u by auto
  then show "\<exists>u. u \<noteq> [] \<and> s = u @ r \<and> (\<forall>x\<in>set u. in_class c x)" using u by blast
next
  assume "\<exists>u. u \<noteq> [] \<and> s = u @ r \<and> (\<forall>x\<in>set u. in_class c x)"
  then obtain u where u: "u \<noteq> []" "s = u @ r" "\<forall>x\<in>set u. in_class c x" by blast
  then have "r \<in> set (runs c s)" using runs_iff by blast
  moreover have "r \<noteq> s" using u by auto
  ultimately show "r \<in> set (tl (runs c s))" by (subst (asm) runs_hd) auto
qed

lemma ms_iff: "(g, r) \<in> set (ms rx s) \<longleftrightarrow> (\<exists>u. s = u @ r \<and> lang rx u g)"
proof (induction rx arbitrary: g r s)
  case (One c)
  show ?case by (cases s) auto
next
  case (Plus c)
  show ?case by (auto simp: tl_runs_iff)
next
  case (Star c)
  show ?case by (auto simp: runs_iff)
next
  case (LazyPlus c)
  show ?case by (auto simp: tl_runs_iff)
next
  case (LazyStar c)
  show ?case by (auto simp: runs_iff)
next
  case (Cat a b)
  have "(g, r) \<in> set (ms (Cat a b) s) \<longleftrightarrow>
      (\<exists>g1 r1 g2. (g1, r1) \<in> set (ms a s) \<and> (g2, r) \<in> set (ms b r1) \<and> g = g1 @ g2)"
    by fastforce
  also have "\<dots> \<longleftrightarrow> (\<exists>g1 r1 g2 u1 u2. s = u1 @ r1 \<and> lang a u1 g1 \<and> r1 = u2 @ r \<and> lang b u2 g2
      \<and> g = g1 @ g2)"
    unfolding Cat.IH by blast
  also have "\<dots> \<longleftrightarrow> (\<exists>u. s = u @ r \<and> lang (Cat a b) u g)"
  proof
    assume "\<exists>g1 r1 g2 u1 u2. s = u1 @ r1 \<and> lang a u1 g1 \<and> r1 = u2 @ r \<and> lang b u2 g2
      \<and> g = g1 @ g2"
    then obtain g1 g2 u1 u2 where "s = (u1 @ u2) @ r" "lang a u1 g1" "lang b u2 g2" "g = g1 @ g2"
      by auto
    then have "s = (u1 @ u2) @ r \<and> lang (Cat a b) (u1 @ u2) g" by auto
    then show "\<exists>u. s = u @ r \<and> lang (Cat a b) u g" by blast
  next
    assume "\<exists>u. s = u @ r \<and> lang (Cat a b) u g"
    then obtain u1 u2 g1 g2 where "s = u1 @ (u2 @ r)" "lang a u1 g1" "lang b u2 g2" "g = g1 @ g2"
      by auto
    then show "\<exists>g1 r1 g2 u1 u2. s = u1 @ r1 \<and> lang a u1 g1 \<and> r1 = u2 @ r \<and> lang b u2 g2
      \<and> g = g1 @ g2" by blast
  qed
  finally show ?case .
next
  case (Grp a)
  have "(g, r) \<in> set (ms (Grp a) s) \<longleftrightarrow>
      (\<exists>g'. (g', r) \<in> set (ms a s) \<and> g = take (length s - length r) s # g')"
    by auto
  also have "\<dots> \<longleftrightarrow> (\<exists>g' u. s = u @ r \<and> lang a u g' \<and> g = take (length s - length r) s # g')"
    unfolding Grp.IH by blast
  also have "\<dots> \<longleftrightarrow> (\<exists>u. s = u @ r \<and> lang (Grp a) u g)"
    by auto
  finally show ?case .
qed

lemma first_match_lang:
  assumes "first_match r s = Some (g, rest)"
  shows "\<exists>u. s = u @ rest \<and> lang r u g"
proof -
  have "(g, rest) \<in> set (ms r s)"
    using assms by (auto simp: first_match_def split: list.splits)
  then show ?thesis by (simp add: ms_iff)
qed

section \<open>Substitution only moves white space\<close>

lemma blank_is_space [simp]: "is_space 0x20"
  by (simp add: is_space_def)

lemma respaced_refl: "respaced s s"
  by (simp add: respaced_def)

lemma respaced_trans: "respaced a b \<Longrightarrow> respaced b c \<Longrightarrow> respaced a c"
  unfolding respaced_def using subseq_order.order_trans by auto

lemma respaced_append:
  "respaced a a' \<Longrightarrow> respaced b b' \<Longrightarrow> respaced (a @ b) (a' @ b')"
  by (simp add: respaced_def list_emb_append_mono)

lemma respaced_insert_blank: "respaced (a @ b) (a @ 0x20 # b)"
  by (simp add: respaced_def)

lemma respaced_drop_spaces: "\<forall>x\<in>set w. is_space x \<Longrightarrow> respaced (a @ w @ b) (a @ b)"
  by (auto simp: respaced_def subseq_append' intro: subseq_drop_many)

lemma re_sub_respaced:
  assumes keep: "\<And>u g. lang r u g \<Longrightarrow> respaced u (expand t g)"
  shows "respaced s (re_sub r t s)"
  using keep
proof (induction r t s rule: re_sub.induct)
  case (1 r t)
  show ?case by (simp add: respaced_refl)
next
  case (2 r t x xs)
  note keep = 2(4)
  show ?case
  proof (cases "first_match r (x # xs)")
    case None
    then show ?thesis
      using respaced_append [OF respaced_refl [of "[x]"] 2(1) [OF None keep]] by simp
  next
    case (Some m)
    obtain gs rest where m: "m = (gs, rest)" by (cases m)
    show ?thesis
    proof (cases "length rest \<le> length xs")
      case True
      obtain u where u: "x # xs = u @ rest" "lang r u gs"
        using first_match_lang Some m by blast
      have eq: "re_sub r t (x # xs) = expand t gs @ re_sub r t rest"
        using Some m True by simp
      have "respaced (u @ rest) (expand t gs @ re_sub r t rest)"
        using keep [OF u(2)] 2(2) [OF Some m [symmetric] True keep] by (rule respaced_append)
      then have "respaced (x # xs) (expand t gs @ re_sub r t rest)"
        by (simp only: u(1))
      then show ?thesis by (simp only: eq)
    next
      case False
      then show ?thesis
        using Some m respaced_append [OF respaced_refl [of "[x]"]
            2(3) [OF Some m [symmetric] False keep]] by simp
    qed
  qed
qed

lemma strip_decomp:
  "\<exists>l r. s = l @ strip s @ r \<and> (\<forall>x\<in>set l. is_space x) \<and> (\<forall>x\<in>set r. is_space x)"
proof -
  define l where "l = takeWhile is_space s"
  define m where "m = dropWhile is_space s"
  define r where "r = rev (takeWhile is_space (rev m))"
  have "m = rev (takeWhile is_space (rev m) @ dropWhile is_space (rev m))" by simp
  also have "\<dots> = rev (dropWhile is_space (rev m)) @ rev (takeWhile is_space (rev m))"
    by (simp only: rev_append)
  finally have "m = strip s @ r" by (simp only: strip_def r_def m_def)
  moreover have "s = l @ m" by (simp add: l_def m_def)
  moreover have "\<forall>x\<in>set l. is_space x" unfolding l_def by (auto dest: set_takeWhileD)
  moreover have "\<forall>x\<in>set r. is_space x" unfolding r_def by (auto dest: set_takeWhileD)
  ultimately show ?thesis by blast
qed

lemma strip_ends:
  assumes "strip s \<noteq> []"
  shows "\<not> is_space (hd (strip s)) \<and> \<not> is_space (last (strip s))"
proof -
  define m where "m = dropWhile is_space s"
  have ne: "dropWhile is_space (rev m) \<noteq> []" using assms by (simp add: strip_def m_def)
  have "last (strip s) = hd (dropWhile is_space (rev m))"
    using ne by (simp add: strip_def m_def last_rev)
  then have l: "\<not> is_space (last (strip s))" using hd_dropWhile [OF ne] by simp
  obtain r where "m = strip s @ r"
    using takeWhile_dropWhile_id [of is_space "rev m"]
    by (metis m_def rev_append rev_rev_ident strip_def)
  then have "hd (strip s) = hd m" "m \<noteq> []" using assms by auto
  then have "\<not> is_space (hd (strip s))" using hd_dropWhile [of is_space s] by (simp add: m_def)
  then show ?thesis using l by simp
qed

lemma strip_respaced: "respaced s (strip s)"
proof -
  obtain l r where d: "s = l @ strip s @ r" "\<forall>x\<in>set l. is_space x" "\<forall>x\<in>set r. is_space x"
    using strip_decomp by blast
  have "respaced ([] @ l @ (strip s @ r)) ([] @ (strip s @ r))"
    using d(2) by (rule respaced_drop_spaces)
  moreover have "respaced (strip s @ r @ []) (strip s @ [])"
    using d(3) by (rule respaced_drop_spaces)
  ultimately have "respaced (l @ strip s @ r) (strip s)"
    using respaced_trans by fastforce
  then show ?thesis using d(1) by simp
qed

lemma respaced_pair:
  "lang (Cat (Grp (One a)) (Grp (One b))) u g \<Longrightarrow> respaced u (expand T_1_2 g)"
  by (auto simp: tmpl_defs expand_def respaced_def)

lemma respaced_triple:
  "lang (Cat (Grp (One a)) (Cat (Grp (One b)) (Grp (One c)))) u g
     \<Longrightarrow> respaced u (expand T_1_2_3 g)"
  by (auto simp: tmpl_defs expand_def respaced_def)

lemma respaced_triple_symbol:
  "lang (Cat (Grp (One a)) (Cat (Grp (One b)) (Grp (One c)))) u g
     \<Longrightarrow> respaced u (expand T_12_3 g)"
  by (auto simp: tmpl_defs expand_def respaced_def)

lemma respaced_fix:
  assumes "lang (Cat (Grp (Plus a)) (Cat (Grp (Star Space)) (Cat (Grp (LazyPlus Dot))
     (Cat (Grp (Star Space)) (Grp (Plus b)))))) u g"
  shows "respaced u (expand T_135 g)"
proof -
  obtain o1 w1 m w2 c1 where g: "g = [o1, w1, m, w2, c1]" and u: "u = o1 @ w1 @ m @ w2 @ c1"
    and w: "\<forall>x\<in>set w1. is_space x" "\<forall>x\<in>set w2. is_space x"
    using assms by auto
  have "respaced (o1 @ w1 @ (m @ w2 @ c1)) (o1 @ (m @ w2 @ c1))"
    using w(1) by (rule respaced_drop_spaces)
  moreover have "respaced ((o1 @ m) @ w2 @ c1) ((o1 @ m) @ c1)"
    using w(2) by (rule respaced_drop_spaces)
  ultimately have "respaced (o1 @ w1 @ m @ w2 @ c1) (o1 @ m @ c1)"
    using respaced_trans by fastforce
  then show ?thesis by (simp add: g u tmpl_defs expand_def)
qed

lemma respaced_FIX_SINGLE_QUOTE:
  "lang FIX_SINGLE_QUOTE_RE u g \<Longrightarrow> respaced u (expand T_134 g)"
  by (auto simp: rx_defs tmpl_defs expand_def respaced_def BLANK_def)

lemma respaced_CJK_HASH: "lang CJK_HASH_RE u g \<Longrightarrow> respaced u (expand T_1_2 g)"
  by (auto simp: rx_defs tmpl_defs expand_def respaced_def)

lemma respaced_HASH_CJK: "lang HASH_CJK_RE u g \<Longrightarrow> respaced u (expand T_1_3 g)"
  by (auto simp: rx_defs tmpl_defs expand_def respaced_def)

lemma respaced_CJK_BRACKET_CJK:
  "lang CJK_BRACKET_CJK_RE u g \<Longrightarrow> respaced u (expand T_1_2_4 g)"
  by (auto simp: rx_defs tmpl_defs expand_def respaced_def)

lemma pass:
  assumes "\<And>u g. lang r u g \<Longrightarrow> respaced u (expand t g)" and "respaced s x"
  shows "respaced s (re_sub r t x)"
  using assms(2) re_sub_respaced [of r t x, OF assms(1)] by (rule respaced_trans)

lemma passes:
  assumes "respaced s x"
  shows "respaced s (re_sub CJK_QUOTE_RE T_1_2 x)"
    and "respaced s (re_sub QUOTE_CJK_RE T_1_2 x)"
    and "respaced s (re_sub FIX_QUOTE_RE T_135 x)"
    and "respaced s (re_sub FIX_SINGLE_QUOTE_RE T_134 x)"
    and "respaced s (re_sub CJK_HASH_RE T_1_2 x)"
    and "respaced s (re_sub HASH_CJK_RE T_1_3 x)"
    and "respaced s (re_sub CJK_OPERATOR_ANS_RE T_1_2_3 x)"
    and "respaced s (re_sub ANS_OPERATOR_CJK_RE T_1_2_3 x)"
    and "respaced s (re_sub CJK_BRACKET_CJK_RE T_1_2_4 x)"
    and "respaced s (re_sub CJK_BRACKET_RE T_1_2 x)"
    and "respaced s (re_sub BRACKET_CJK_RE T_1_2 x)"
    and "respaced s (re_sub FIX_BRACKET_RE T_135 x)"
    and "respaced s (re_sub FIX_SYMBOL_RE T_12_3 x)"
    and "respaced s (re_sub CJK_ANS_RE T_1_2 x)"
    and "respaced s (re_sub ANS_CJK_RE T_1_2 x)"
proof -
  show "respaced s (re_sub CJK_QUOTE_RE T_1_2 x)"
    unfolding CJK_QUOTE_RE_def by (rule pass [OF _ assms], erule respaced_pair)
  show "respaced s (re_sub QUOTE_CJK_RE T_1_2 x)"
    unfolding QUOTE_CJK_RE_def by (rule pass [OF _ assms], erule respaced_pair)
  show "respaced s (re_sub FIX_QUOTE_RE T_135 x)"
    unfolding FIX_QUOTE_RE_def by (rule pass [OF _ assms], erule respaced_fix)
  show "respaced s (re_sub FIX_SINGLE_QUOTE_RE T_134 x)"
    by (rule pass [OF _ assms], erule respaced_FIX_SINGLE_QUOTE)
  show "respaced s (re_sub CJK_HASH_RE T_1_2 x)"
    by (rule pass [OF _ assms], erule respaced_CJK_HASH)
  show "respaced s (re_sub HASH_CJK_RE T_1_3 x)"
    by (rule pass [OF _ assms], erule respaced_HASH_CJK)
  show "respaced s (re_sub CJK_OPERATOR_ANS_RE T_1_2_3 x)"
    unfolding CJK_OPERATOR_ANS_RE_def by (rule pass [OF _ assms], erule respaced_triple)
  show "respaced s (re_sub ANS_OPERATOR_CJK_RE T_1_2_3 x)"
    unfolding ANS_OPERATOR_CJK_RE_def by (rule pass [OF _ assms], erule respaced_triple)
  show "respaced s (re_sub CJK_BRACKET_CJK_RE T_1_2_4 x)"
    by (rule pass [OF _ assms], erule respaced_CJK_BRACKET_CJK)
  show "respaced s (re_sub CJK_BRACKET_RE T_1_2 x)"
    unfolding CJK_BRACKET_RE_def by (rule pass [OF _ assms], erule respaced_pair)
  show "respaced s (re_sub BRACKET_CJK_RE T_1_2 x)"
    unfolding BRACKET_CJK_RE_def by (rule pass [OF _ assms], erule respaced_pair)
  show "respaced s (re_sub FIX_BRACKET_RE T_135 x)"
    unfolding FIX_BRACKET_RE_def by (rule pass [OF _ assms], erule respaced_fix)
  show "respaced s (re_sub FIX_SYMBOL_RE T_12_3 x)"
    unfolding FIX_SYMBOL_RE_def by (rule pass [OF _ assms], erule respaced_triple_symbol)
  show "respaced s (re_sub CJK_ANS_RE T_1_2 x)"
    unfolding CJK_ANS_RE_def by (rule pass [OF _ assms], erule respaced_pair)
  show "respaced s (re_sub ANS_CJK_RE T_1_2 x)"
    unfolding ANS_CJK_RE_def by (rule pass [OF _ assms], erule respaced_pair)
qed

lemma rewritten_respaced: "respaced s (rewritten s)"
proof -
  have a: "respaced s (quote_hash_operator_rules s)"
    unfolding quote_hash_operator_rules_def by (intro passes respaced_refl)
  have b: "respaced s (bracket_rules (quote_hash_operator_rules s))"
    unfolding bracket_rules_def Let_def by (simp only: split: if_split) (intro conjI impI passes a)
  show ?thesis
    unfolding rewritten_def closing_rules_def by (intro passes b)
qed

lemma spacing_text_respaced: "respaced s (spacing_text s)"
  using respaced_trans [OF rewritten_respaced strip_respaced]
  by (simp add: spacing_text_stages respaced_refl)

text \<open>
  Claim C9: for every input, the non-white-space code points of \<open>spacing_text s\<close> are those
  of \<open>s\<close>, in the same order and number; and what the output has besides them is white
  space of the input or the inserted character U+0020 (without the characters U+0020, the
  output is a subsequence of the input).
\<close>

theorem spacing_text_keeps_visible_characters:
  "filter (\<lambda>c. \<not> is_space c) (spacing_text s) = filter (\<lambda>c. \<not> is_space c) s
   \<and> subseq (filter (\<lambda>c. c \<noteq> 0x20) (spacing_text s)) (filter (\<lambda>c. c \<noteq> 0x20) s)"
  using spacing_text_respaced [of s] by (simp add: respaced_def)

text \<open>
  Claim C8, as the code has it: for every input of at least two code points, the result is
  the strip of the text that the substitutions of lines 70 to 92 leave (\<open>rewritten\<close>, in which no
  strip occurs); it neither starts nor ends with white space; and that text is the result
  with white space before and after it.  The strip removes all white space at the two ends,
  that of the input included.
\<close>

theorem spacing_text_stripped_once:
  "2 \<le> length s \<Longrightarrow>
     spacing_text s = strip (rewritten s)
     \<and> (spacing_text s = []
          \<or> (\<not> is_space (hd (spacing_text s)) \<and> \<not> is_space (last (spacing_text s))))
     \<and> (\<exists>l r. rewritten s = l @ spacing_text s @ r \<and> list_all is_space l \<and> list_all is_space r)"
  using strip_decomp [of "rewritten s"] strip_ends [of "rewritten s"]
  by (auto simp: spacing_text_stages list_all_iff)

lemma rewritten_blank_a_b: "rewritten [0x20, 0x61, 0x62, 0x20] = [0x20, 0x61, 0x62, 0x20]"
  by (simp add: stage_defs eval_defs)

lemma strip_blank_a_b: "strip [0x20, 0x61, 0x62, 0x20] = [0x61, 0x62]"
  by (simp add: eval_defs)

theorem spacing_text_stripped_once_witness:
  "2 \<le> length [0x20::nat, 0x61, 0x62, 0x20]
   \<and> spacing_text [0x20, 0x61, 0x62, 0x20] = strip (rewritten [0x20, 0x61, 0x62, 0x20])
   \<and> strip (rewritten [0x20, 0x61, 0x62, 0x20]) = [0x61, 0x62]"
  using spacing_text_stripped_once [of "[0x20, 0x61, 0x62, 0x20]"]
  by (simp add: rewritten_blank_a_b strip_blank_a_b)

text \<open>
  Claim C8 as stated fails: the substitutions change nothing in the text U+0020 a b U+0020,
  so they produce no white space, and yet the white space at its two ends is removed.
\<close>

theorem input_white_space_is_stripped:
  "rewritten [0x20, 0x61, 0x62, 0x20] = [0x20, 0x61, 0x62, 0x20]
   \<and> spacing_text [0x20, 0x61, 0x62, 0x20] = [0x61, 0x62]"
  by (simp add: spacing_text_stages rewritten_blank_a_b strip_blank_a_b)

end
